theory Spec2Isabelle
  imports Complex_Main
begin

section \<open>Data model of WeatherApi.py\<close>

text \<open>
  Python strings are sequences of Unicode code points; a city name and an API key are
  lists of code points. \<open>str\<close> turns an Isabelle string literal into such a list.
\<close>

type_synonym str = "nat list"

definition str :: "string \<Rightarrow> str" where
  "str s = map of_char s"

text \<open>
  The weather payload is the JSON object of the weather endpoint, passed on verbatim
  and never inspected: a dictionary, \<open>{}\<close> being the empty list.
\<close>

type_synonym Dict = "(string \<times> string) list"

text \<open>
  \<open>datetime\<close> values count microseconds; \<open>lat\<close> and \<open>lon\<close> are the numbers
  that \<open>float\<close> reads from the geocoding answer.
\<close>

type_synonym datetime = int

datatype Behaviors = POLLING | ON_DEMAND

record City =
  city_name :: str
  lat :: rat
  lon :: rat
  weather_data :: Dict
  created_datetime :: datetime

record WeatherApi =
  api_key :: str
  cities :: "City list"
  behavior :: Behaviors

text \<open>
  The exceptions the module raises. \<open>Invalid_parameter\<close> and \<open>Invalid_API_response\<close>
  are the \<open>ValueError\<close>s of the validator, \<open>Api_key_already_exists\<close>,
  \<open>Failed_to_get_coordinates\<close> and \<open>Failed_to_get_weather_data\<close> the
  \<open>RuntimeError\<close>s, and \<open>Not_in_list\<close> the \<open>ValueError\<close> of \<open>list.remove\<close>.
\<close>

datatype error =
    Invalid_parameter
  | Invalid_API_response int
  | Api_key_already_exists
  | Failed_to_get_coordinates
  | Failed_to_get_weather_data
  | Not_in_list

section \<open>The outside world: clock and HTTP\<close>

text \<open>
  A \<open>requests.Response\<close> has a status code and a body; \<open>json\<close> is \<open>None\<close> when
  \<open>response.json()\<close> raises (a \<open>RequestException\<close> of the library). A call of
  \<open>requests.get\<close> that raises \<open>RequestException\<close> yields no response at all.
  The body of the geocoding endpoint is a JSON array whose elements carry \<open>lon\<close> and
  \<open>lat\<close>, here a list of pairs \<open>(lon, lat)\<close>.
\<close>

datatype 'b Response = Response (status_code: int) (json: "'b option")

datatype request =
    Geo_GET str str
  | Weather_GET rat rat str

text \<open>
  The environment answers the \<open>n\<close>-th clock read and the \<open>n\<close>-th HTTP request of
  the run. The world counts the clock reads and logs every request issued.
\<close>

record env =
  clock :: "nat \<Rightarrow> datetime"
  geo_endpoint :: "nat \<Rightarrow> str \<Rightarrow> str \<Rightarrow> (rat \<times> rat) list Response option"
  weather_endpoint :: "nat \<Rightarrow> rat \<Rightarrow> rat \<Rightarrow> str \<Rightarrow> Dict Response option"

record world =
  clock_reads :: nat
  requests :: "request list"

definition datetime_now :: "env \<Rightarrow> world \<Rightarrow> datetime \<times> world" where
  "datetime_now e w = (clock e (clock_reads w), w\<lparr>clock_reads := Suc (clock_reads w)\<rparr>)"

definition geo_get :: "env \<Rightarrow> str \<Rightarrow> str \<Rightarrow> world \<Rightarrow> (rat \<times> rat) list Response option \<times> world" where
  "geo_get e q appid w =
     (geo_endpoint e (length (requests w)) q appid,
      w\<lparr>requests := requests w @ [Geo_GET q appid]\<rparr>)"

definition weather_get :: "env \<Rightarrow> rat \<Rightarrow> rat \<Rightarrow> str \<Rightarrow> world \<Rightarrow> Dict Response option \<times> world" where
  "weather_get e la lo appid w =
     (weather_endpoint e (length (requests w)) la lo appid,
      w\<lparr>requests := requests w @ [Weather_GET la lo appid]\<rparr>)"

section \<open>WeatherApiValidator\<close>

text \<open>The characters \<open>str.strip\<close> removes: those for which \<open>str.isspace\<close> holds.\<close>

definition isspace :: "nat \<Rightarrow> bool" where
  "isspace c \<longleftrightarrow>
     (9 \<le> c \<and> c \<le> 13) \<or> (28 \<le> c \<and> c \<le> 32) \<or> c = 133 \<or> c = 160 \<or> c = 5760 \<or>
     (8192 \<le> c \<and> c \<le> 8202) \<or> c = 8232 \<or> c = 8233 \<or> c = 8239 \<or> c = 8287 \<or> c = 12288"

definition strip :: "str \<Rightarrow> str" where
  "strip s = rev (dropWhile isspace (rev (dropWhile isspace s)))"

text \<open>
  \<open>is_valid_parameter\<close>: the parameter is a string here, so \<open>not isinstance(param, str)\<close>
  is false; \<open>not param\<close> holds for the empty string.
\<close>

definition is_valid_parameter :: "str \<Rightarrow> error + bool" where
  "is_valid_parameter param =
     (if param = [] \<or> strip param = [] then Inl Invalid_parameter else Inr True)"

definition is_valid_status_code_response :: "'b Response \<Rightarrow> error + bool" where
  "is_valid_status_code_response response =
     (if status_code response \<noteq> 200 then Inl (Invalid_API_response (status_code response))
      else Inr True)"

section \<open>WeatherApi\<close>

subsection \<open>Construction and the process-wide registry\<close>

text \<open>
  \<open>weather_api_cache\<close> is the class attribute listing the registered clients. The loop
  of \<open>__init__\<close> raises at the first registered client with the same key.
\<close>

fun key_exists :: "str \<Rightarrow> WeatherApi list \<Rightarrow> bool" where
  "key_exists k [] = False"
| "key_exists k (cached_api # rest) = (if api_key cached_api = k then True else key_exists k rest)"

definition init :: "str \<Rightarrow> Behaviors \<Rightarrow> WeatherApi list \<Rightarrow> (error + WeatherApi) \<times> WeatherApi list" where
  "init k b weather_api_cache =
     (if key_exists k weather_api_cache then (Inl Api_key_already_exists, weather_api_cache)
      else (let self = \<lparr>api_key = k, cities = [], behavior = b\<rparr>
            in (Inr self, weather_api_cache @ [self])))"

subsection \<open>remove\_city\_by\_name\<close>

definition remove_city_by_name :: "WeatherApi \<Rightarrow> str \<Rightarrow> WeatherApi" where
  "remove_city_by_name self name =
     self\<lparr>cities := filter (\<lambda>city. city_name city \<noteq> name) (cities self)\<rparr>"

subsection \<open>get\_city\_lon\_lat\<close>

text \<open>The result \<open>None\<close> is the empty dictionary, \<open>Some (lon, lat)\<close> the coordinates.\<close>

definition get_city_lon_lat ::
  "env \<Rightarrow> WeatherApi \<Rightarrow> str \<Rightarrow> world \<Rightarrow> (error + (rat \<times> rat) option) \<times> world" where
  "get_city_lon_lat e self name w =
     (case is_valid_parameter name of
        Inl err \<Rightarrow> (Inl err, w)
      | Inr _ \<Rightarrow>
         (case geo_get e name (api_key self) w of
            (None, w') \<Rightarrow> (Inl Failed_to_get_coordinates, w')
          | (Some response, w') \<Rightarrow>
             (case is_valid_status_code_response response of
                Inl err \<Rightarrow> (Inl err, w')
              | Inr _ \<Rightarrow>
                 (case json response of
                    None \<Rightarrow> (Inl Failed_to_get_coordinates, w')
                  | Some [] \<Rightarrow> (Inr None, w')
                  | Some (d # _) \<Rightarrow> (Inr (Some d), w')))))"

subsection \<open>\_send\_request\_to\_get\_weather\_city\_json\<close>

definition send_request_to_get_weather_city_json ::
  "env \<Rightarrow> WeatherApi \<Rightarrow> str \<Rightarrow> rat \<Rightarrow> rat \<Rightarrow> world \<Rightarrow> (error + Dict) \<times> world" where
  "send_request_to_get_weather_city_json e self name la lo w =
     (case is_valid_parameter name of
        Inl err \<Rightarrow> (Inl err, w)
      | Inr _ \<Rightarrow>
         (case weather_get e la lo (api_key self) w of
            (None, w') \<Rightarrow> (Inl Failed_to_get_weather_data, w')
          | (Some response, w') \<Rightarrow>
             (case is_valid_status_code_response response of
                Inl err \<Rightarrow> (Inl err, w')
              | Inr _ \<Rightarrow>
                 (case json response of
                    None \<Rightarrow> (Inl Failed_to_get_weather_data, w')
                  | Some data \<Rightarrow> (Inr data, w')))))"

subsection \<open>update\_cities\_cache\<close>

text \<open>
  \<open>time_diff\<close> is the age of an entry in minutes, \<open>total_seconds() / 60\<close>. The floating
  point quotient is below, at or above 10 exactly when this exact quotient is: six hundred
  million microseconds give 600.0 and 10.0 without rounding, and the neighbouring
  microsecond counts differ from it by far more than the rounding error.
\<close>

definition time_diff :: "datetime \<Rightarrow> City \<Rightarrow> rat" where
  "time_diff current_time city =
     of_int (current_time - created_datetime city) / 1000000 / 60"

text \<open>
  The loop of \<open>update_cities_cache\<close> over the entries still to visit. It returns the
  entries as the loop leaves them: an exception of the fetch leaves the entries from the
  failing one on as they were, those before it already updated.
\<close>

fun update_loop ::
  "env \<Rightarrow> WeatherApi \<Rightarrow> datetime \<Rightarrow> City list \<Rightarrow> world \<Rightarrow> (error + unit) \<times> City list \<times> world" where
  "update_loop e self current_time [] w = (Inr (), [], w)"
| "update_loop e self current_time (city # rest) w =
     (if time_diff current_time city > 10 then
        (case send_request_to_get_weather_city_json e self (city_name city) (lat city) (lon city) w of
           (Inl err, w') \<Rightarrow> (Inl err, city # rest, w')
         | (Inr data, w') \<Rightarrow>
            (case update_loop e self current_time rest w' of
               (r, rest', w'') \<Rightarrow>
                 (r, city\<lparr>weather_data := data, created_datetime := current_time\<rparr> # rest', w'')))
      else
        (case update_loop e self current_time rest w of
           (r, rest', w') \<Rightarrow> (r, city # rest', w')))"

definition update_cities_cache ::
  "env \<Rightarrow> WeatherApi \<Rightarrow> world \<Rightarrow> (error + unit) \<times> WeatherApi \<times> world" where
  "update_cities_cache e self w =
     (case datetime_now e w of
        (current_time, w1) \<Rightarrow>
          (case update_loop e self current_time (cities self) w1 of
             (r, cs, w2) \<Rightarrow> (r, self\<lparr>cities := cs\<rparr>, w2)))"

subsection \<open>get\_and\_cache\_weather\_city\<close>

text \<open>The first loop: the payload of the first entry of that name younger than 10 minutes.\<close>

fun fresh_by_name :: "datetime \<Rightarrow> str \<Rightarrow> City list \<Rightarrow> Dict option" where
  "fresh_by_name current_time name [] = None"
| "fresh_by_name current_time name (city # rest) =
     (if city_name city = name \<and> time_diff current_time city < 10 then Some (weather_data city)
      else fresh_by_name current_time name rest)"

text \<open>The second loop, which compares the coordinates as well.\<close>

fun fresh_by_coordinates :: "datetime \<Rightarrow> str \<Rightarrow> rat \<Rightarrow> rat \<Rightarrow> City list \<Rightarrow> Dict option" where
  "fresh_by_coordinates current_time name lo la [] = None"
| "fresh_by_coordinates current_time name lo la (city # rest) =
     (if city_name city = name \<and> lon city = lo \<and> lat city = la \<and> time_diff current_time city < 10
      then Some (weather_data city)
      else fresh_by_coordinates current_time name lo la rest)"

text \<open>
  \<open>list.remove(x)\<close> deletes the first element equal to \<open>x\<close> and raises \<open>ValueError\<close>
  when there is none. The source calls \<open>self.cities.remove(0)\<close>: the dataclass equality
  of \<open>City\<close> answers \<open>NotImplemented\<close> for an operand of another class, so does the
  integer, and the comparison falls back to identity: no \<open>City\<close> equals \<open>0\<close>.
\<close>

fun list_remove :: "('a \<Rightarrow> bool) \<Rightarrow> 'a list \<Rightarrow> error + 'a list" where
  "list_remove eq [] = Inl Not_in_list"
| "list_remove eq (x # xs) =
     (if eq x then Inr xs
      else (case list_remove eq xs of Inl err \<Rightarrow> Inl err | Inr xs' \<Rightarrow> Inr (x # xs')))"

definition City_eq_int :: "int \<Rightarrow> City \<Rightarrow> bool" where
  "City_eq_int n city = False"

text \<open>Lines 113 to 117: the capacity check, the insertion and the return.\<close>

definition insert_city ::
  "env \<Rightarrow> WeatherApi \<Rightarrow> str \<Rightarrow> rat \<Rightarrow> rat \<Rightarrow> Dict \<Rightarrow> world \<Rightarrow> (error + Dict) \<times> WeatherApi \<times> world" where
  "insert_city e self name la lo data w =
     (case (if length (cities self) > 9 then list_remove (City_eq_int 0) (cities self)
            else Inr (cities self)) of
        Inl err \<Rightarrow> (Inl err, self, w)
      | Inr cs \<Rightarrow>
         (case datetime_now e w of
            (t, w') \<Rightarrow>
              (Inr data,
               self\<lparr>cities := cs @ [\<lparr>city_name = name, lat = la, lon = lo,
                                       weather_data = data, created_datetime = t\<rparr>]\<rparr>,
               w')))"

text \<open>Lines 90 to 117: what follows the polling refresh.\<close>

definition lookup_or_fetch ::
  "env \<Rightarrow> WeatherApi \<Rightarrow> str \<Rightarrow> world \<Rightarrow> (error + Dict) \<times> WeatherApi \<times> world" where
  "lookup_or_fetch e self name w =
     (case datetime_now e w of
        (current_time, w1) \<Rightarrow>
          (case fresh_by_name current_time name (cities self) of
             Some data \<Rightarrow> (Inr data, self, w1)
           | None \<Rightarrow>
              (case get_city_lon_lat e self name w1 of
                 (Inl err, w2) \<Rightarrow> (Inl err, self, w2)
               | (Inr None, w2) \<Rightarrow> (Inr [], self, w2)
               | (Inr (Some (lo, la)), w2) \<Rightarrow>
                  (case fresh_by_coordinates current_time name lo la (cities self) of
                     Some data \<Rightarrow> (Inr data, self, w2)
                   | None \<Rightarrow>
                      (case send_request_to_get_weather_city_json e self name la lo w2 of
                         (Inl err, w3) \<Rightarrow> (Inl err, self, w3)
                       | (Inr data, w3) \<Rightarrow> insert_city e self name la lo data w3)))))"

text \<open>Lines 87 and 88: the refresh that only the polling mode makes.\<close>

definition polling_refresh ::
  "env \<Rightarrow> WeatherApi \<Rightarrow> world \<Rightarrow> (error + unit) \<times> WeatherApi \<times> world" where
  "polling_refresh e self w =
     (if behavior self = POLLING then update_cities_cache e self w else (Inr (), self, w))"

definition get_and_cache_weather_city ::
  "env \<Rightarrow> WeatherApi \<Rightarrow> str \<Rightarrow> world \<Rightarrow> (error + Dict) \<times> WeatherApi \<times> world" where
  "get_and_cache_weather_city e self name w =
     (case is_valid_parameter name of
        Inl err \<Rightarrow> (Inl err, self, w)
      | Inr _ \<Rightarrow>
         (case polling_refresh e self w of
            (Inl err, self1, w1) \<Rightarrow> (Inl err, self1, w1)
          | (Inr _, self1, w1) \<Rightarrow> lookup_or_fetch e self1 name w1))"

text \<open>The request that the refresh issues for an entry, with the entry's own coordinates.\<close>

definition refresh_request :: "WeatherApi \<Rightarrow> City \<Rightarrow> request" where
  "refresh_request self city = Weather_GET (lat city) (lon city) (api_key self)"

text \<open>The entries of a cache for one city name.\<close>

definition entries_named :: "str \<Rightarrow> City list \<Rightarrow> City list" where
  "entries_named name cs = filter (\<lambda>city. city_name city = name) cs"

section \<open>Concrete scenarios\<close>

text \<open>
  A mocked environment for the concrete scenarios: the geocoder knows Paris and Tokyo,
  the weather endpoint always answers with status 200, and the clock advances by one
  microsecond per read from a given start.
\<close>

definition minutes :: "int \<Rightarrow> datetime" where
  "minutes n = n * 60000000"

definition mock_geo :: "nat \<Rightarrow> str \<Rightarrow> str \<Rightarrow> (rat \<times> rat) list Response option" where
  "mock_geo n q appid =
     (if q = str ''Paris'' then Some (Response 200 (Some [(2, 48)]))
      else if q = str ''Tokyo'' then Some (Response 200 (Some [(139, 35)]))
      else Some (Response 200 (Some [])))"

definition mock_weather :: "nat \<Rightarrow> rat \<Rightarrow> rat \<Rightarrow> str \<Rightarrow> Dict Response option" where
  "mock_weather n la lo appid =
     Some (Response 200 (Some [(''main'', if la = 48 then ''Clouds'' else ''Rain'')]))"

definition mock_env :: "datetime \<Rightarrow> env" where
  "mock_env start =
     \<lparr>clock = (\<lambda>n. start + int n), geo_endpoint = mock_geo, weather_endpoint = mock_weather\<rparr>"

definition world0 :: world where
  "world0 = \<lparr>clock_reads = 0, requests = []\<rparr>"

definition old_paris :: City where
  "old_paris = \<lparr>city_name = str ''Paris'', lat = 48, lon = 2,
                 weather_data = [(''main'', ''Clear'')], created_datetime = 0\<rparr>"

definition client :: "Behaviors \<Rightarrow> City list \<Rightarrow> WeatherApi" where
  "client b cs = \<lparr>api_key = str ''key'', cities = cs, behavior = b\<rparr>"

definition other_city :: "nat \<Rightarrow> City" where
  "other_city i = \<lparr>city_name = [65 + i], lat = 0, lon = of_nat i,
                    weather_data = [], created_datetime = 0\<rparr>"

definition ten_cities :: "City list" where
  "ten_cities = map other_city [0, 1, 2, 3, 4, 5, 6, 7, 8, 9]"

section \<open>Properties\<close>

subsection \<open>Validation\<close>

lemma dropWhile_all_iff: "(\<forall>x\<in>set (dropWhile P xs). P x) \<longleftrightarrow> (\<forall>x\<in>set xs. P x)"
  by (induction xs) auto

lemma strip_empty_iff: "strip s = [] \<longleftrightarrow> list_all isspace s"
  by (simp add: strip_def dropWhile_all_iff list_all_iff)

lemma is_valid_parameter_blank: "list_all isspace name \<Longrightarrow> is_valid_parameter name = Inl Invalid_parameter"
  by (simp add: is_valid_parameter_def strip_empty_iff)

lemma is_valid_parameter_cases:
  "is_valid_parameter name = Inl Invalid_parameter \<or> is_valid_parameter name = Inr True"
  by (simp add: is_valid_parameter_def)

text \<open>
  C8. A city name that is empty or consists of whitespace only makes both
  \<open>get_city_lon_lat\<close> and \<open>get_and_cache_weather_city\<close> raise the validation error;
  the world is returned as it was, so no HTTP request was logged (and no clock read
  made), and the client, its cache included, is unchanged.
\<close>

theorem blank_city_name_rejected:
  "list_all isspace name \<Longrightarrow>
     get_city_lon_lat e self name w = (Inl Invalid_parameter, w) \<and>
     get_and_cache_weather_city e self name w = (Inl Invalid_parameter, self, w)"
  by (simp add: get_city_lon_lat_def get_and_cache_weather_city_def is_valid_parameter_blank)

theorem blank_city_name_rejected_witness:
  "list_all isspace [32, 9, 12288] \<and>
   get_city_lon_lat (mock_env 0) (client POLLING [old_paris]) [32, 9, 12288] world0
     = (Inl Invalid_parameter, world0) \<and>
   get_and_cache_weather_city (mock_env 0) (client POLLING [old_paris]) [32, 9, 12288] world0
     = (Inl Invalid_parameter, client POLLING [old_paris], world0)"
proof -
  have blank: "list_all isspace [32, 9, 12288]"
    by (simp add: isspace_def)
  from blank_city_name_rejected [OF blank] show ?thesis
    using blank by simp
qed

subsection \<open>Removing a city\<close>

text \<open>
  C9. After \<open>remove_city_by_name self X\<close> no entry named \<open>X\<close> is left, and the entries
  with another name are the same entries in the same order as before; key and mode of
  the client are untouched.
\<close>

theorem remove_city_by_name_frame:
  "filter (\<lambda>city. city_name city = X) (cities (remove_city_by_name self X)) = [] \<and>
   filter (\<lambda>city. city_name city \<noteq> X) (cities (remove_city_by_name self X))
     = filter (\<lambda>city. city_name city \<noteq> X) (cities self) \<and>
   api_key (remove_city_by_name self X) = api_key self \<and>
   behavior (remove_city_by_name self X) = behavior self"
  by (simp add: remove_city_by_name_def)

subsection \<open>Construction\<close>

lemma key_exists_iff: "key_exists k reg \<longleftrightarrow> k \<in> api_key ` set reg"
  by (induction reg) auto

text \<open>
  C7. Constructing a client with a key that a registered client holds raises
  \<open>Api_key_already_exists\<close> and returns the registry as it was; with a key that no
  registered client holds, construction returns the new client (empty cache, the given
  mode) and the registry with that client appended.
\<close>

theorem init_duplicate_key:
  "(k \<in> api_key ` set reg \<longrightarrow> init k b reg = (Inl Api_key_already_exists, reg)) \<and>
   (k \<notin> api_key ` set reg \<longrightarrow>
      init k b reg = (Inr \<lparr>api_key = k, cities = [], behavior = b\<rparr>,
                      reg @ [\<lparr>api_key = k, cities = [], behavior = b\<rparr>]))"
  by (simp add: init_def key_exists_iff Let_def)

theorem init_duplicate_key_witness:
  "str ''key'' \<in> api_key ` set [client ON_DEMAND []] \<and>
   init (str ''key'') POLLING [client ON_DEMAND []]
     = (Inl Api_key_already_exists, [client ON_DEMAND []]) \<and>
   str ''other'' \<notin> api_key ` set [client ON_DEMAND []] \<and>
   init (str ''other'') POLLING [client ON_DEMAND []]
     = (Inr \<lparr>api_key = str ''other'', cities = [], behavior = POLLING\<rparr>,
        [client ON_DEMAND [], \<lparr>api_key = str ''other'', cities = [], behavior = POLLING\<rparr>])"
  using init_duplicate_key [of "str ''key''" "[client ON_DEMAND []]" POLLING]
        init_duplicate_key [of "str ''other''" "[client ON_DEMAND []]" POLLING]
  by (simp add: client_def str_def)

subsection \<open>Ages, lookups and the refresh loop\<close>

lemma time_diff_less_10: "time_diff t c < 10 \<longleftrightarrow> t - created_datetime c < 600000000"
proof -
  have "time_diff t c < 10 \<longleftrightarrow> (of_int (t - created_datetime c) :: rat) < of_int 600000000"
    by (simp add: time_diff_def)
  also have "\<dots> \<longleftrightarrow> t - created_datetime c < 600000000"
    by (simp only: of_int_less_iff)
  finally show ?thesis .
qed

lemma time_diff_greater_10: "time_diff t c > 10 \<longleftrightarrow> t - created_datetime c > 600000000"
proof -
  have "time_diff t c > 10 \<longleftrightarrow> (of_int (t - created_datetime c) :: rat) > of_int 600000000"
    by (simp add: time_diff_def)
  also have "\<dots> \<longleftrightarrow> t - created_datetime c > 600000000"
    by (simp only: of_int_less_iff)
  finally show ?thesis .
qed

lemma time_diff_eq_10: "time_diff t c = 10 \<longleftrightarrow> t - created_datetime c = 600000000"
proof -
  have "time_diff t c = 10 \<longleftrightarrow> (of_int (t - created_datetime c) :: rat) = of_int 600000000"
    by (simp add: time_diff_def)
  also have "\<dots> \<longleftrightarrow> t - created_datetime c = 600000000"
    by (simp only: of_int_eq_iff)
  finally show ?thesis .
qed

lemma fresh_by_name_None_iff:
  "fresh_by_name t name cs = None \<longleftrightarrow> (\<forall>c\<in>set cs. city_name c = name \<longrightarrow> \<not> time_diff t c < 10)"
  by (induction cs) auto

lemma fresh_by_name_append:
  "fresh_by_name t name (xs @ ys) =
     (case fresh_by_name t name xs of Some d \<Rightarrow> Some d | None \<Rightarrow> fresh_by_name t name ys)"
  by (induction xs) auto

lemma fresh_by_coordinates_None:
  "fresh_by_name t name cs = None \<Longrightarrow> fresh_by_coordinates t name lo la cs = None"
  by (induction cs) (auto split: if_splits)

lemma list_remove_City_eq_int: "list_remove (City_eq_int n) cs = Inl Not_in_list"
  by (induction cs) (auto simp: City_eq_int_def)

lemma insert_city_full:
  "length (cities self) > 9 \<Longrightarrow> insert_city e self name la lo data w = (Inl Not_in_list, self, w)"
  by (simp add: insert_city_def list_remove_City_eq_int)

lemma insert_city_room:
  "length (cities self) \<le> 9 \<Longrightarrow>
     insert_city e self name la lo data w =
       (Inr data,
        self\<lparr>cities := cities self @ [\<lparr>city_name = name, lat = la, lon = lo, weather_data = data,
                                         created_datetime = clock e (clock_reads w)\<rparr>]\<rparr>,
        w\<lparr>clock_reads := Suc (clock_reads w)\<rparr>)"
  by (simp add: insert_city_def datetime_now_def)

lemma send_request_ok:
  "is_valid_parameter name = Inr True \<Longrightarrow>
   weather_endpoint e (length (requests w)) la lo (api_key self) = Some (Response 200 (Some data)) \<Longrightarrow>
     send_request_to_get_weather_city_json e self name la lo w =
       (Inr data, w\<lparr>requests := requests w @ [Weather_GET la lo (api_key self)]\<rparr>)"
  by (simp add: send_request_to_get_weather_city_json_def weather_get_def
        is_valid_status_code_response_def)

lemma send_request_world:
  "send_request_to_get_weather_city_json e self name la lo w = (r, w') \<Longrightarrow>
     clock_reads w' = clock_reads w \<and>
     (requests w' = requests w \<and> r = Inl Invalid_parameter \<or>
      requests w' = requests w @ [Weather_GET la lo (api_key self)])"
  using is_valid_parameter_cases [of name]
  by (auto simp: send_request_to_get_weather_city_json_def weather_get_def
        is_valid_status_code_response_def split: option.splits if_splits)

lemma get_city_lon_lat_ok:
  "is_valid_parameter name = Inr True \<Longrightarrow>
   geo_endpoint e (length (requests w)) name (api_key self) = Some (Response 200 (Some (d # ds))) \<Longrightarrow>
     get_city_lon_lat e self name w =
       (Inr (Some d), w\<lparr>requests := requests w @ [Geo_GET name (api_key self)]\<rparr>)"
  by (simp add: get_city_lon_lat_def geo_get_def is_valid_status_code_response_def)

lemma get_city_lon_lat_world:
  "is_valid_parameter name = Inr True \<Longrightarrow> get_city_lon_lat e self name w = (r, w') \<Longrightarrow>
     clock_reads w' = clock_reads w \<and> requests w' = requests w @ [Geo_GET name (api_key self)]"
  by (auto simp: get_city_lon_lat_def geo_get_def
        is_valid_status_code_response_def split: option.splits if_splits list.splits)

lemma update_loop_length:
  "update_loop e self t cs w = (r, cs', w') \<Longrightarrow> length cs' = length cs"
proof (induction cs arbitrary: w r cs' w')
  case Nil
  then show ?case by simp
next
  case (Cons c cs)
  then show ?case
    by (auto split: if_splits prod.splits sum.splits)
qed


lemma send_request_Inr:
  "send_request_to_get_weather_city_json e self name la lo w = (Inr data, w') \<Longrightarrow>
     w' = w\<lparr>requests := requests w @ [Weather_GET la lo (api_key self)]\<rparr> \<and>
     weather_endpoint e (length (requests w)) la lo (api_key self) = Some (Response 200 (Some data))"
  by (auto simp: send_request_to_get_weather_city_json_def weather_get_def
        is_valid_status_code_response_def split: option.splits if_splits sum.splits
        intro: Response.expand)

lemma update_loop_world:
  "update_loop e self t cs w = (r, cs', w') \<Longrightarrow>
     clock_reads w' = clock_reads w \<and>
     (\<exists>k. requests w' =
        requests w @ take k (map (refresh_request self) (filter (\<lambda>c. time_diff t c > 10) cs))) \<and>
     (r = Inr () \<longrightarrow> requests w' =
        requests w @ map (refresh_request self) (filter (\<lambda>c. time_diff t c > 10) cs))"
proof (induction cs arbitrary: w r cs' w')
  case Nil
  then show ?case by simp
next
  case (Cons c cs)
  show ?case
  proof (cases "time_diff t c > 10")
    case False
    obtain r1 cs1 w1 where rec: "update_loop e self t cs w = (r1, cs1, w1)"
      by (cases "update_loop e self t cs w") auto
    with Cons.prems False have eq: "r = r1" "w' = w1" by auto
    from Cons.IH [OF rec] show ?thesis using False eq by simp
  next
    case True
    obtain r0 w0 where sr:
      "send_request_to_get_weather_city_json e self (city_name c) (lat c) (lon c) w = (r0, w0)"
      by (cases "send_request_to_get_weather_city_json e self (city_name c) (lat c) (lon c) w") auto
    show ?thesis
    proof (cases r0)
      case (Inl err)
      with Cons.prems True sr have eq: "r = Inl err" "w' = w0" by auto
      from send_request_world [OF sr]
      have cr: "clock_reads w0 = clock_reads w"
        and rq: "requests w0 = requests w \<or> requests w0 = requests w @ [refresh_request self c]"
        by (auto simp: refresh_request_def)
      from rq have "\<exists>k. requests w0 = requests w @
          take k (refresh_request self c # map (refresh_request self) (filter (\<lambda>c. time_diff t c > 10) cs))"
      proof
        assume "requests w0 = requests w"
        then have "requests w0 = requests w @
          take 0 (refresh_request self c # map (refresh_request self) (filter (\<lambda>c. time_diff t c > 10) cs))"
          by simp
        then show ?thesis by blast
      next
        assume "requests w0 = requests w @ [refresh_request self c]"
        then have "requests w0 = requests w @
          take 1 (refresh_request self c # map (refresh_request self) (filter (\<lambda>c. time_diff t c > 10) cs))"
          by simp
        then show ?thesis by blast
      qed
      with cr eq True show ?thesis by simp
    next
      case (Inr data)
      from send_request_Inr [OF sr [unfolded Inr]]
      have w0: "w0 = w\<lparr>requests := requests w @ [refresh_request self c]\<rparr>"
        by (simp add: refresh_request_def)
      obtain r1 cs1 w1 where rec: "update_loop e self t cs w0 = (r1, cs1, w1)"
        by (cases "update_loop e self t cs w0") auto
      with Cons.prems True sr Inr have eq: "r = r1" "w' = w1" by auto
      from Cons.IH [OF rec] obtain k where
        cr: "clock_reads w1 = clock_reads w0"
        and rq: "requests w1 = requests w0 @
              take k (map (refresh_request self) (filter (\<lambda>c. time_diff t c > 10) cs))"
        and full: "r1 = Inr () \<longrightarrow> requests w1 = requests w0 @
              map (refresh_request self) (filter (\<lambda>c. time_diff t c > 10) cs)"
        by blast
      from rq w0 have "requests w1 = requests w @
          take (Suc k) (refresh_request self c # map (refresh_request self) (filter (\<lambda>c. time_diff t c > 10) cs))"
        by simp
      then have "\<exists>k. requests w1 = requests w @
          take k (refresh_request self c # map (refresh_request self) (filter (\<lambda>c. time_diff t c > 10) cs))"
        by blast
      with cr full w0 eq True show ?thesis by simp
    qed
  qed
qed

lemma update_loop_unchanged:
  "update_loop e self t cs w = (r, cs', w') \<Longrightarrow> i < length cs \<Longrightarrow>
     \<not> time_diff t (cs ! i) > 10 \<Longrightarrow> cs' ! i = cs ! i"
proof (induction cs arbitrary: w r cs' w' i)
  case Nil
  then show ?case by simp
next
  case (Cons c cs)
  then show ?case
    by (cases i) (auto split: if_splits prod.splits sum.splits)
qed

lemma update_loop_updated:
  "update_loop e self t cs w = (Inr (), cs', w') \<Longrightarrow> i < length cs \<Longrightarrow>
     time_diff t (cs ! i) > 10 \<Longrightarrow>
     \<exists>data. cs' ! i = (cs ! i)\<lparr>weather_data := data, created_datetime := t\<rparr> \<and>
       weather_endpoint e
         (length (requests w) + length (filter (\<lambda>c. time_diff t c > 10) (take i cs)))
         (lat (cs ! i)) (lon (cs ! i)) (api_key self) = Some (Response 200 (Some data))"
proof (induction cs arbitrary: w cs' w' i)
  case Nil
  then show ?case by simp
next
  case (Cons c cs)
  show ?case
  proof (cases "time_diff t c > 10")
    case False
    obtain r1 cs1 w1 where rec: "update_loop e self t cs w = (r1, cs1, w1)"
      by (cases "update_loop e self t cs w") auto
    with Cons.prems False have eq: "r1 = Inr ()" "cs' = c # cs1" by auto
    from Cons.prems False obtain j where j: "i = Suc j"
      by (cases i) auto
    from Cons.IH [OF rec [unfolded eq(1)], of j] Cons.prems j
    show ?thesis using False eq j by simp
  next
    case True
    obtain r0 w0 where sr:
      "send_request_to_get_weather_city_json e self (city_name c) (lat c) (lon c) w = (r0, w0)"
      by (cases "send_request_to_get_weather_city_json e self (city_name c) (lat c) (lon c) w") auto
    from Cons.prems(1) True sr obtain data where r0: "r0 = Inr data"
      by (cases r0) auto
    from send_request_Inr [OF sr [unfolded r0]]
    have w0: "w0 = w\<lparr>requests := requests w @ [Weather_GET (lat c) (lon c) (api_key self)]\<rparr>"
      and ans: "weather_endpoint e (length (requests w)) (lat c) (lon c) (api_key self)
                  = Some (Response 200 (Some data))"
      by simp_all
    obtain r1 cs1 w1 where rec: "update_loop e self t cs w0 = (r1, cs1, w1)"
      by (cases "update_loop e self t cs w0") auto
    with Cons.prems(1) True sr r0
    have eq: "r1 = Inr ()" "cs' = c\<lparr>weather_data := data, created_datetime := t\<rparr> # cs1"
      by auto
    show ?thesis
    proof (cases i)
      case 0
      with eq ans show ?thesis by simp
    next
      case (Suc j)
      from Cons.IH [OF rec [unfolded eq(1)], of j] Cons.prems Suc
      show ?thesis using True eq Suc w0 by simp
    qed
  qed
qed

lemma update_loop_ok:
  "\<forall>c\<in>set cs. is_valid_parameter (city_name c) = Inr True \<Longrightarrow>
   \<forall>n la lo k. \<exists>data. weather_endpoint e n la lo k = Some (Response 200 (Some data)) \<Longrightarrow>
     \<exists>cs' w'. update_loop e self t cs w = (Inr (), cs', w')"
proof (induction cs arbitrary: w)
  case Nil
  then show ?case by simp
next
  case (Cons c cs)
  from Cons.prems(2) obtain data where
    "weather_endpoint e (length (requests w)) (lat c) (lon c) (api_key self)
       = Some (Response 200 (Some data))"
    by blast
  with Cons.prems(1)
  have sr: "send_request_to_get_weather_city_json e self (city_name c) (lat c) (lon c) w =
       (Inr data, w\<lparr>requests := requests w @ [Weather_GET (lat c) (lon c) (api_key self)]\<rparr>)"
    by (simp add: send_request_ok)
  from Cons.IH [of "w\<lparr>requests := requests w @ [Weather_GET (lat c) (lon c) (api_key self)]\<rparr>"]
       Cons.IH [of w] Cons.prems
  show ?case
    using sr by (cases "time_diff t c > 10") auto
qed

subsection \<open>Lookup, fetch and insertion\<close>

lemma lookup_or_fetch_hit:
  "fresh_by_name (clock e (clock_reads w)) name (cities self) = Some data \<Longrightarrow>
     lookup_or_fetch e self name w = (Inr data, self, w\<lparr>clock_reads := Suc (clock_reads w)\<rparr>)"
  by (simp add: lookup_or_fetch_def datetime_now_def)

lemma lookup_or_fetch_miss:
  assumes valid: "is_valid_parameter name = Inr True"
    and miss: "fresh_by_name (clock e (clock_reads w)) name (cities self) = None"
    and geo: "geo_endpoint e (length (requests w)) name (api_key self)
                = Some (Response 200 (Some ((lo, la) # ds)))"
    and weather: "weather_endpoint e (Suc (length (requests w))) la lo (api_key self)
                = Some (Response 200 (Some data))"
  shows "lookup_or_fetch e self name w =
           insert_city e self name la lo data
             (w\<lparr>clock_reads := Suc (clock_reads w),
                requests := requests w @ [Geo_GET name (api_key self), Weather_GET la lo (api_key self)]\<rparr>)"
proof -
  let ?w1 = "w\<lparr>clock_reads := Suc (clock_reads w)\<rparr>"
  let ?w2 = "?w1\<lparr>requests := requests ?w1 @ [Geo_GET name (api_key self)]\<rparr>"
  have g: "get_city_lon_lat e self name ?w1 = (Inr (Some (lo, la)), ?w2)"
    using valid geo by (simp add: get_city_lon_lat_ok)
  have s: "send_request_to_get_weather_city_json e self name la lo ?w2 =
      (Inr data, ?w2\<lparr>requests := requests ?w2 @ [Weather_GET la lo (api_key self)]\<rparr>)"
    using valid weather by (simp add: send_request_ok)
  show ?thesis
    using miss g s
    by (simp add: lookup_or_fetch_def datetime_now_def fresh_by_coordinates_None)
qed

lemma insert_city_length:
  assumes "insert_city e self name la lo data w = (r, self', w')"
  shows "length (cities self') = length (cities self) \<or>
         length (cities self) \<le> 9 \<and> length (cities self') = Suc (length (cities self))"
proof (cases "length (cities self) > 9")
  case True
  with assms show ?thesis by (simp add: insert_city_full)
next
  case False
  then have room: "length (cities self) \<le> 9" by simp
  from insert_city_room [OF room, of e name la lo data w] assms room show ?thesis by auto
qed

lemma lookup_or_fetch_length:
  assumes "lookup_or_fetch e self name w = (r, self', w')"
  shows "length (cities self') = length (cities self) \<or>
         length (cities self) \<le> 9 \<and> length (cities self') = Suc (length (cities self))"
  using assms
  by (auto simp: lookup_or_fetch_def datetime_now_def
      split: option.splits prod.splits sum.splits dest: insert_city_length)

lemma update_cities_cache_length:
  "update_cities_cache e self w = (r, self', w') \<Longrightarrow> length (cities self') = length (cities self)"
  by (auto simp: update_cities_cache_def datetime_now_def split: prod.splits
      dest: update_loop_length)

lemma polling_refresh_length:
  "polling_refresh e self w = (r, self', w') \<Longrightarrow> length (cities self') = length (cities self)"
  by (auto simp: polling_refresh_def split: if_splits dest: update_cities_cache_length)

lemma get_and_cache_weather_city_length:
  assumes "get_and_cache_weather_city e self name w = (r, self', w')"
  shows "length (cities self') = length (cities self) \<or>
         length (cities self) \<le> 9 \<and> length (cities self') = Suc (length (cities self))"
proof (cases "is_valid_parameter name")
  case (Inl err)
  with assms show ?thesis by (simp add: get_and_cache_weather_city_def)
next
  case (Inr b)
  obtain r1 self1 w1 where pr: "polling_refresh e self w = (r1, self1, w1)"
    by (cases "polling_refresh e self w") auto
  from polling_refresh_length [OF pr] have len: "length (cities self1) = length (cities self)" .
  show ?thesis
  proof (cases r1)
    case (Inl err)
    with assms Inr pr len show ?thesis by (simp add: get_and_cache_weather_city_def)
  next
    case (Inr u)
    with assms \<open>is_valid_parameter name = Inr b\<close> pr
    have "lookup_or_fetch e self1 name w1 = (r, self', w')"
      by (simp add: get_and_cache_weather_city_def)
    from lookup_or_fetch_length [OF this] len show ?thesis by simp
  qed
qed

subsection \<open>The capacity of the cache\<close>

lemma ten: "length ten_cities = 10"
  by (simp add: ten_cities_def)

lemma fresh_ten: "fresh_by_name (minutes 11) (str ''Tokyo'') ten_cities = None"
  by (simp add: ten_cities_def other_city_def str_def)

text \<open>
  C3. A freshly constructed client has at most 10 cache entries (it has none), and from a
  client with at most 10 entries each operation leaves at most 10: \<open>get_and_cache_weather_city\<close>,
  \<open>update_cities_cache\<close> and \<open>remove_city_by_name\<close>, whatever the operation returns
  or raises (the client of the result is the client as the operation left it).
\<close>

theorem cache_at_most_ten:
  "(\<forall>self reg'. init k b reg = (Inr self, reg') \<longrightarrow> length (cities self) \<le> 10) \<and>
   (length (cities self) \<le> 10 \<longrightarrow>
      length (cities (fst (snd (get_and_cache_weather_city e self name w)))) \<le> 10 \<and>
      length (cities (fst (snd (update_cities_cache e self w)))) \<le> 10 \<and>
      length (cities (remove_city_by_name self name)) \<le> 10)"
proof (intro conjI allI impI)
  fix c reg'
  assume "init k b reg = (Inr c, reg')"
  then show "length (cities c) \<le> 10"
    by (auto simp: init_def Let_def split: if_splits)
next
  assume le: "length (cities self) \<le> 10"
  obtain r s' w' where g: "get_and_cache_weather_city e self name w = (r, s', w')"
    by (cases "get_and_cache_weather_city e self name w") auto
  from get_and_cache_weather_city_length [OF g] le
  show "length (cities (fst (snd (get_and_cache_weather_city e self name w)))) \<le> 10"
    using g by auto
next
  assume le: "length (cities self) \<le> 10"
  obtain r s' w' where u: "update_cities_cache e self w = (r, s', w')"
    by (cases "update_cities_cache e self w") auto
  from update_cities_cache_length [OF u] le
  show "length (cities (fst (snd (update_cities_cache e self w)))) \<le> 10"
    using u by simp
next
  assume le: "length (cities self) \<le> 10"
  have "length (filter (\<lambda>city. city_name city \<noteq> name) (cities self)) \<le> length (cities self)"
    by (rule length_filter_le)
  with le have "length (filter (\<lambda>city. city_name city \<noteq> name) (cities self)) \<le> 10"
    by linarith
  then show "length (cities (remove_city_by_name self name)) \<le> 10"
    by (simp add: remove_city_by_name_def)
qed

theorem cache_at_most_ten_witness:
  "init (str ''key'') ON_DEMAND [] = (Inr (client ON_DEMAND []), [client ON_DEMAND []]) \<and>
   length (cities (client ON_DEMAND [])) \<le> 10 \<and>
   length (cities (client POLLING ten_cities)) \<le> 10 \<and>
   length (cities (fst (snd (get_and_cache_weather_city (mock_env (minutes 11))
     (client POLLING ten_cities) (str ''Tokyo'') world0)))) \<le> 10 \<and>
   length (cities (fst (snd (update_cities_cache (mock_env (minutes 11))
     (client POLLING ten_cities) world0)))) \<le> 10 \<and>
   length (cities (remove_city_by_name (client POLLING ten_cities) (str ''Tokyo''))) \<le> 10"
proof -
  have i: "init (str ''key'') ON_DEMAND [] = (Inr (client ON_DEMAND []), [client ON_DEMAND []])"
    by (simp add: init_def client_def Let_def)
  have l: "length (cities (client POLLING ten_cities)) \<le> 10"
    by (simp add: client_def ten)
  from cache_at_most_ten [of "str ''key''" ON_DEMAND "[]" "client POLLING ten_cities"
      "mock_env (minutes 11)" "str ''Tokyo''" world0] i l
  show ?thesis by simp
qed

text \<open>
  C2. The source evicts with \<open>self.cities.remove(0)\<close>, which looks for an element equal
  to the integer 0 instead of deleting the element at index 0. With 10 cached cities, a
  call for an eleventh city geocodes it and fetches its weather, and then raises the
  \<open>ValueError\<close> of \<open>list.remove\<close>: no entry is evicted, the new entry is not appended,
  and the call does not return the payload.
\<close>

theorem eleventh_city_raises:
  "get_and_cache_weather_city (mock_env (minutes 11)) (client ON_DEMAND ten_cities) (str ''Tokyo'') world0
     = (Inl Not_in_list, client ON_DEMAND ten_cities,
        \<lparr>clock_reads = 1,
         requests = [Geo_GET (str ''Tokyo'') (str ''key''), Weather_GET 35 139 (str ''key'')]\<rparr>)"
proof -
  have valid: "is_valid_parameter (str ''Tokyo'') = Inr True"
    by (simp add: str_def is_valid_parameter_def strip_def isspace_def)
  have miss: "fresh_by_name (clock (mock_env (minutes 11)) (clock_reads world0)) (str ''Tokyo'')
                (cities (client ON_DEMAND ten_cities)) = None"
    by (simp add: mock_env_def world0_def client_def fresh_ten)
  have geo: "geo_endpoint (mock_env (minutes 11)) (length (requests world0)) (str ''Tokyo'')
               (api_key (client ON_DEMAND ten_cities)) = Some (Response 200 (Some ((139, 35) # [])))"
    by (simp add: mock_env_def mock_geo_def str_def)
  have weather: "weather_endpoint (mock_env (minutes 11)) (Suc (length (requests world0))) 35 139
               (api_key (client ON_DEMAND ten_cities)) = Some (Response 200 (Some [(''main'', ''Rain'')]))"
    by (simp add: mock_env_def mock_weather_def)
  have full: "length (cities (client ON_DEMAND ten_cities)) > 9"
    by (simp add: client_def ten)
  show ?thesis
    using lookup_or_fetch_miss [OF valid miss geo weather] insert_city_full [OF full] valid
    by (simp add: get_and_cache_weather_city_def polling_refresh_def client_def world0_def)
qed

subsection \<open>A cache miss fetches and appends\<close>

lemma polling_refresh_client:
  "polling_refresh e self w = (r, self', w') \<Longrightarrow>
     api_key self' = api_key self \<and> behavior self' = behavior self"
  by (auto simp: polling_refresh_def update_cities_cache_def datetime_now_def
      split: if_splits prod.splits)

lemma polling_refresh_on_demand:
  "behavior self = ON_DEMAND \<Longrightarrow> polling_refresh e self w = (Inr (), self, w)"
  by (simp add: polling_refresh_def)

lemma valid_Paris: "is_valid_parameter (str ''Paris'') = Inr True"
  by (simp add: str_def is_valid_parameter_def strip_def isspace_def)

lemma valid_Tokyo: "is_valid_parameter (str ''Tokyo'') = Inr True"
  by (simp add: str_def is_valid_parameter_def strip_def isspace_def)

lemma get_and_cache_weather_city_miss:
  assumes valid: "is_valid_parameter name = Inr True"
    and refresh: "polling_refresh e self w = (Inr (), self1, w1)"
    and miss: "fresh_by_name (clock e (clock_reads w1)) name (cities self1) = None"
    and geo: "geo_endpoint e (length (requests w1)) name (api_key self)
                = Some (Response 200 (Some ((lo, la) # ds)))"
    and weather: "weather_endpoint e (Suc (length (requests w1))) la lo (api_key self)
                = Some (Response 200 (Some data))"
    and room: "length (cities self) \<le> 9"
  shows "get_and_cache_weather_city e self name w =
           (Inr data,
            self1\<lparr>cities := cities self1 @
               [\<lparr>city_name = name, lat = la, lon = lo, weather_data = data,
                 created_datetime = clock e (Suc (clock_reads w1))\<rparr>]\<rparr>,
            w1\<lparr>clock_reads := Suc (Suc (clock_reads w1)),
               requests := requests w1 @
                 [Geo_GET name (api_key self), Weather_GET la lo (api_key self)]\<rparr>)"
proof -
  from polling_refresh_client [OF refresh] have key: "api_key self1 = api_key self"
    by simp
  from polling_refresh_length [OF refresh] room have room1: "length (cities self1) \<le> 9"
    by simp
  have "get_and_cache_weather_city e self name w = lookup_or_fetch e self1 name w1"
    using valid refresh by (simp add: get_and_cache_weather_city_def)
  also have "\<dots> = insert_city e self1 name la lo data
             (w1\<lparr>clock_reads := Suc (clock_reads w1),
                requests := requests w1 @ [Geo_GET name (api_key self1), Weather_GET la lo (api_key self1)]\<rparr>)"
    using valid miss geo weather by (intro lookup_or_fetch_miss) (simp_all add: key)
  finally show ?thesis
    using insert_city_room [OF room1] by (simp add: key)
qed




subsection \<open>A stale entry in on-demand mode\<close>

text \<open>
  The sibling path: in polling mode the refresh gives the stale entry for Paris the new
  payload and the new time in place, and the call for Paris is then served from that
  single entry.
\<close>

lemma stale_entry_refreshed_in_place_polling:
  "get_and_cache_weather_city (mock_env (minutes 11)) (client POLLING [old_paris]) (str ''Paris'') world0
     = (Inr [(''main'', ''Clouds'')],
        client POLLING
          [old_paris\<lparr>weather_data := [(''main'', ''Clouds'')], created_datetime := minutes 11\<rparr>],
        \<lparr>clock_reads = 2, requests = [Weather_GET 48 2 (str ''key'')]\<rparr>)"
proof -
  let ?e = "mock_env (minutes 11)" and ?c = "client POLLING [old_paris]"
  let ?paris = "old_paris\<lparr>weather_data := [(''main'', ''Clouds'')], created_datetime := minutes 11\<rparr>"
  let ?w1 = "\<lparr>clock_reads = 1, requests = [Weather_GET 48 2 (str ''key'')]\<rparr>"
  have send: "send_request_to_get_weather_city_json ?e ?c (str ''Paris'') 48 2
                \<lparr>clock_reads = 1, requests = []\<rparr> = (Inr [(''main'', ''Clouds'')], ?w1)"
    using valid_Paris
    by (simp add: send_request_to_get_weather_city_json_def weather_get_def mock_env_def
        mock_weather_def is_valid_status_code_response_def client_def)
  have stale: "time_diff (minutes 11) old_paris > 10"
    by (simp add: old_paris_def minutes_def time_diff_def)
  have upd: "update_cities_cache ?e ?c world0 = (Inr (), client POLLING [?paris], ?w1)"
    using send stale
    by (simp add: update_cities_cache_def datetime_now_def world0_def mock_env_def client_def
        old_paris_def)
  have hit: "fresh_by_name (clock ?e (clock_reads ?w1)) (str ''Paris'')
               (cities (client POLLING [?paris])) = Some [(''main'', ''Clouds'')]"
    by (simp add: client_def old_paris_def mock_env_def time_diff_def)
  show ?thesis
    using valid_Paris upd lookup_or_fetch_hit [OF hit]
    by (simp add: get_and_cache_weather_city_def polling_refresh_def client_def)
qed

text \<open>
  C1. The claim: in on-demand mode, a call for a city whose cached entry is at least 10
  minutes old fetches again and updates that entry in place, leaving one entry for the
  city. The code at that input: with the only entry for Paris 11 minutes old, the
  on-demand call for Paris geocodes, fetches the weather and appends a second entry for
  Paris; the stale entry stays as it was, and the cache holds two entries for Paris.
\<close>

theorem stale_entry_duplicated_on_demand:
  "get_and_cache_weather_city (mock_env (minutes 11)) (client ON_DEMAND [old_paris]) (str ''Paris'') world0
     = (Inr [(''main'', ''Clouds'')],
        client ON_DEMAND
          [old_paris,
           \<lparr>city_name = str ''Paris'', lat = 48, lon = 2, weather_data = [(''main'', ''Clouds'')],
            created_datetime = minutes 11 + 1\<rparr>],
        \<lparr>clock_reads = 2,
         requests = [Geo_GET (str ''Paris'') (str ''key''), Weather_GET 48 2 (str ''key'')]\<rparr>) \<and>
   length (entries_named (str ''Paris'') (cities (fst (snd (get_and_cache_weather_city
     (mock_env (minutes 11)) (client ON_DEMAND [old_paris]) (str ''Paris'') world0))))) = 2"
proof -
  let ?e = "mock_env (minutes 11)" and ?c = "client ON_DEMAND [old_paris]"
  have refresh: "polling_refresh ?e ?c world0 = (Inr (), ?c, world0)"
    by (simp add: polling_refresh_def client_def)
  have miss: "fresh_by_name (clock ?e (clock_reads world0)) (str ''Paris'') (cities ?c) = None"
    by (simp add: client_def old_paris_def mock_env_def world0_def minutes_def time_diff_def)
  have geo: "geo_endpoint ?e (length (requests world0)) (str ''Paris'') (api_key ?c)
               = Some (Response 200 (Some ((2, 48) # [])))"
    by (simp add: mock_env_def mock_geo_def)
  have weather: "weather_endpoint ?e (Suc (length (requests world0))) 48 2 (api_key ?c)
               = Some (Response 200 (Some [(''main'', ''Clouds'')]))"
    by (simp add: mock_env_def mock_weather_def)
  have room: "length (cities ?c) \<le> 9"
    by (simp add: client_def)
  from get_and_cache_weather_city_miss [OF valid_Paris refresh miss geo weather room]
  show ?thesis
    by (simp add: client_def world0_def mock_env_def entries_named_def old_paris_def)
qed

subsection \<open>A second call within the freshness window\<close>

lemma get_city_lon_lat_Inr:
  "get_city_lon_lat e self name w = (Inr x, w') \<Longrightarrow>
     is_valid_parameter name = Inr True \<and>
     w' = w\<lparr>requests := requests w @ [Geo_GET name (api_key self)]\<rparr>"
  using is_valid_parameter_cases [of name]
  by (auto simp: get_city_lon_lat_def geo_get_def is_valid_status_code_response_def
      split: option.splits if_splits list.splits)

lemma insert_city_created:
  assumes "insert_city e self name la lo data w = (r, self1, w1)"
    and "length (cities self1) = Suc (length (cities self))"
  shows "r = Inr data \<and>
         self1 = self\<lparr>cities := cities self @
                   [\<lparr>city_name = name, lat = la, lon = lo, weather_data = data,
                     created_datetime = clock e (clock_reads w)\<rparr>]\<rparr> \<and>
         w1 = w\<lparr>clock_reads := Suc (clock_reads w)\<rparr>"
proof (cases "length (cities self) > 9")
  case True
  with assms show ?thesis by (simp add: insert_city_full)
next
  case False
  then have room: "length (cities self) \<le> 9" by simp
  from insert_city_room [OF room, of e name la lo data w] assms(1) show ?thesis by simp
qed

lemma lookup_or_fetch_created:
  assumes run: "lookup_or_fetch e self name w = (r, self1, w1)"
    and longer: "length (cities self1) = Suc (length (cities self))"
  shows "fresh_by_name (clock e (clock_reads w)) name (cities self) = None \<and>
         (\<exists>la lo data. r = Inr data \<and>
            self1 = self\<lparr>cities := cities self @
                      [\<lparr>city_name = name, lat = la, lon = lo, weather_data = data,
                        created_datetime = clock e (Suc (clock_reads w))\<rparr>]\<rparr> \<and>
            w1 = w\<lparr>clock_reads := Suc (Suc (clock_reads w)),
                    requests := requests w @
                      [Geo_GET name (api_key self), Weather_GET la lo (api_key self)]\<rparr>)"
proof -
  let ?t = "clock e (clock_reads w)"
  let ?w1 = "w\<lparr>clock_reads := Suc (clock_reads w)\<rparr>"
  have miss: "fresh_by_name ?t name (cities self) = None"
  proof (cases "fresh_by_name ?t name (cities self)")
    case None
    then show ?thesis .
  next
    case (Some d)
    from lookup_or_fetch_hit [OF Some] run longer show ?thesis by simp
  qed
  obtain g w2 where geo: "get_city_lon_lat e self name ?w1 = (g, w2)"
    by (cases "get_city_lon_lat e self name ?w1") auto
  from run miss geo longer obtain lo la where g: "g = Inr (Some (lo, la))"
    by (auto simp: lookup_or_fetch_def datetime_now_def split: sum.splits option.splits)
  from get_city_lon_lat_Inr [OF geo [unfolded g]]
  have w2: "w2 = ?w1\<lparr>requests := requests ?w1 @ [Geo_GET name (api_key self)]\<rparr>"
    by simp
  obtain s w3 where send: "send_request_to_get_weather_city_json e self name la lo w2 = (s, w3)"
    by (cases "send_request_to_get_weather_city_json e self name la lo w2") auto
  from run miss geo g send longer obtain data where s: "s = Inr data"
    by (auto simp: lookup_or_fetch_def datetime_now_def fresh_by_coordinates_None
        split: sum.splits)
  from send_request_Inr [OF send [unfolded s]]
  have w3: "w3 = w2\<lparr>requests := requests w2 @ [Weather_GET la lo (api_key self)]\<rparr>"
    by simp
  from run miss geo g send s
  have "insert_city e self name la lo data w3 = (r, self1, w1)"
    by (simp add: lookup_or_fetch_def datetime_now_def fresh_by_coordinates_None)
  from insert_city_created [OF this longer] w3 w2
  have "r = Inr data \<and>
        self1 = self\<lparr>cities := cities self @
                  [\<lparr>city_name = name, lat = la, lon = lo, weather_data = data,
                    created_datetime = clock e (Suc (clock_reads w))\<rparr>]\<rparr> \<and>
        w1 = w\<lparr>clock_reads := Suc (Suc (clock_reads w)),
                requests := requests w @
                  [Geo_GET name (api_key self), Weather_GET la lo (api_key self)]\<rparr>"
    by simp
  with miss show ?thesis
    by blast
qed

lemma fresh_by_name_payload:
  "fresh_by_name t name cs = Some d \<Longrightarrow> d \<in> weather_data ` set (entries_named name cs)"
  by (induction cs) (auto simp: entries_named_def split: if_splits)

lemma fresh_by_name_later:
  assumes "fresh_by_name t name cs = None" and "t \<le> t'"
  shows "fresh_by_name t' name cs = None"
proof -
  have "\<not> time_diff t' c < 10" if "c \<in> set cs" "city_name c = name" for c
  proof -
    from assms(1) that have "\<not> time_diff t c < 10"
      by (simp add: fresh_by_name_None_iff)
    with assms(2) show ?thesis
      by (simp add: time_diff_less_10)
  qed
  then show ?thesis
    by (auto simp: fresh_by_name_None_iff)
qed

text \<open>
  C5. In on-demand mode, let a first call for city \<open>C\<close> return a payload and lengthen
  the cache by an entry. That call issued one geocode request and one weather fetch. A
  second call for \<open>C\<close>, made in any later world in which the new entry is younger than 10
  minutes, returns the payload of a cached entry for \<open>C\<close>, issues no request and leaves
  the client unchanged. When the clock has not gone backwards between the two calls, the
  payload returned is the one the first call fetched.
\<close>

theorem second_call_served_from_cache:
  assumes "behavior self = ON_DEMAND"
    and "get_and_cache_weather_city e self name w = (Inr data, self1, w1)"
    and "length (cities self1) = Suc (length (cities self))"
    and "time_diff (clock e (clock_reads w2)) (last (cities self1)) < 10"
  shows "\<exists>la lo d.
           requests w1 = requests w @
             [Geo_GET name (api_key self), Weather_GET la lo (api_key self)] \<and>
           get_and_cache_weather_city e self1 name w2 =
             (Inr d, self1, w2\<lparr>clock_reads := Suc (clock_reads w2)\<rparr>) \<and>
           d \<in> weather_data ` set (entries_named name (cities self1)) \<and>
           (clock e (clock_reads w) \<le> clock e (clock_reads w2) \<longrightarrow> d = data)"
proof -
  from assms(2) have valid: "is_valid_parameter name = Inr True"
    using is_valid_parameter_cases [of name]
    by (auto simp: get_and_cache_weather_city_def)
  from assms(1,2) valid have first: "lookup_or_fetch e self name w = (Inr data, self1, w1)"
    by (simp add: get_and_cache_weather_city_def polling_refresh_on_demand)
  let ?new = "\<lambda>la lo. \<lparr>city_name = name, lat = la, lon = lo, weather_data = data,
                        created_datetime = clock e (Suc (clock_reads w))\<rparr>"
  from lookup_or_fetch_created [OF first assms(3)] obtain la lo where
    miss: "fresh_by_name (clock e (clock_reads w)) name (cities self) = None"
    and self1: "self1 = self\<lparr>cities := cities self @ [?new la lo]\<rparr>"
    and w1: "w1 = w\<lparr>clock_reads := Suc (Suc (clock_reads w)),
                    requests := requests w @
                      [Geo_GET name (api_key self), Weather_GET la lo (api_key self)]\<rparr>"
    by auto
  let ?t2 = "clock e (clock_reads w2)"
  from assms(4) self1 have young: "time_diff ?t2 (?new la lo) < 10"
    by simp
  define d where "d = (case fresh_by_name ?t2 name (cities self) of Some d' \<Rightarrow> d' | None \<Rightarrow> data)"
  have hit: "fresh_by_name ?t2 name (cities self1) = Some d"
    using young by (simp add: self1 fresh_by_name_append d_def split: option.splits)
  have mode1: "behavior self1 = ON_DEMAND"
    using assms(1) by (simp add: self1)
  have second: "get_and_cache_weather_city e self1 name w2 =
             (Inr d, self1, w2\<lparr>clock_reads := Suc (clock_reads w2)\<rparr>)"
    using valid lookup_or_fetch_hit [OF hit]
    by (simp add: get_and_cache_weather_city_def polling_refresh_on_demand [OF mode1])
  have same: "d = data" if "clock e (clock_reads w) \<le> ?t2"
    using fresh_by_name_later [OF miss that] by (simp add: d_def)
  from w1 second fresh_by_name_payload [OF hit] same show ?thesis
    by auto
qed

theorem second_call_served_from_cache_witness:
  "behavior (client ON_DEMAND [old_paris]) = ON_DEMAND \<and>
   get_and_cache_weather_city (mock_env (minutes 11)) (client ON_DEMAND [old_paris]) (str ''Tokyo'') world0
     = (Inr [(''main'', ''Rain'')],
        client ON_DEMAND
          [old_paris,
           \<lparr>city_name = str ''Tokyo'', lat = 35, lon = 139, weather_data = [(''main'', ''Rain'')],
            created_datetime = minutes 11 + 1\<rparr>],
        \<lparr>clock_reads = 2,
         requests = [Geo_GET (str ''Tokyo'') (str ''key''), Weather_GET 35 139 (str ''key'')]\<rparr>) \<and>
   get_and_cache_weather_city (mock_env (minutes 11))
       (client ON_DEMAND
          [old_paris,
           \<lparr>city_name = str ''Tokyo'', lat = 35, lon = 139, weather_data = [(''main'', ''Rain'')],
            created_datetime = minutes 11 + 1\<rparr>])
       (str ''Tokyo'')
       \<lparr>clock_reads = 2,
        requests = [Geo_GET (str ''Tokyo'') (str ''key''), Weather_GET 35 139 (str ''key'')]\<rparr>
     = (Inr [(''main'', ''Rain'')],
        client ON_DEMAND
          [old_paris,
           \<lparr>city_name = str ''Tokyo'', lat = 35, lon = 139, weather_data = [(''main'', ''Rain'')],
            created_datetime = minutes 11 + 1\<rparr>],
        \<lparr>clock_reads = 3,
         requests = [Geo_GET (str ''Tokyo'') (str ''key''), Weather_GET 35 139 (str ''key'')]\<rparr>)"
proof -
  let ?e = "mock_env (minutes 11)" and ?c = "client ON_DEMAND [old_paris]"
  let ?tokyo = "\<lparr>city_name = str ''Tokyo'', lat = 35, lon = 139,
                  weather_data = [(''main'', ''Rain'')], created_datetime = minutes 11 + 1\<rparr>"
  let ?w1 = "\<lparr>clock_reads = 2,
         requests = [Geo_GET (str ''Tokyo'') (str ''key''), Weather_GET 35 139 (str ''key'')]\<rparr>"
  have mode: "behavior ?c = ON_DEMAND"
    by (simp add: client_def)
  have refresh: "polling_refresh ?e ?c world0 = (Inr (), ?c, world0)"
    by (simp add: polling_refresh_def client_def)
  have miss: "fresh_by_name (clock ?e (clock_reads world0)) (str ''Tokyo'') (cities ?c) = None"
    by (simp add: client_def old_paris_def str_def)
  have geo: "geo_endpoint ?e (length (requests world0)) (str ''Tokyo'') (api_key ?c)
               = Some (Response 200 (Some ((139, 35) # [])))"
    by (simp add: mock_env_def mock_geo_def str_def)
  have weather: "weather_endpoint ?e (Suc (length (requests world0))) 35 139 (api_key ?c)
               = Some (Response 200 (Some [(''main'', ''Rain'')]))"
    by (simp add: mock_env_def mock_weather_def)
  have room: "length (cities ?c) \<le> 9"
    by (simp add: client_def)
  have first: "get_and_cache_weather_city ?e ?c (str ''Tokyo'') world0
      = (Inr [(''main'', ''Rain'')], client ON_DEMAND [old_paris, ?tokyo], ?w1)"
    using get_and_cache_weather_city_miss [OF valid_Tokyo refresh miss geo weather room]
    by (simp add: client_def world0_def mock_env_def)
  have longer: "length (cities (client ON_DEMAND [old_paris, ?tokyo])) = Suc (length (cities ?c))"
    by (simp add: client_def)
  have young: "time_diff (clock ?e (clock_reads ?w1)) (last (cities (client ON_DEMAND [old_paris, ?tokyo]))) < 10"
    by (simp add: client_def mock_env_def time_diff_def)
  have forward: "clock ?e (clock_reads world0) \<le> clock ?e (clock_reads ?w1)"
    by (simp add: mock_env_def world0_def)
  from second_call_served_from_cache [OF mode first longer young] forward
  have "get_and_cache_weather_city ?e (client ON_DEMAND [old_paris, ?tokyo]) (str ''Tokyo'') ?w1
      = (Inr [(''main'', ''Rain'')], client ON_DEMAND [old_paris, ?tokyo], ?w1\<lparr>clock_reads := Suc (clock_reads ?w1)\<rparr>)"
    by auto
  with mode first show ?thesis
    by simp
qed

subsection \<open>The polling refresh comes first\<close>

lemma insert_city_requests:
  "insert_city e self name la lo data w = (r, self', w') \<Longrightarrow> requests w' = requests w"
  by (auto simp: insert_city_def datetime_now_def split: sum.splits if_splits)

lemma lookup_or_fetch_requests:
  assumes run: "lookup_or_fetch e self name w = (r, self', w')"
    and valid: "is_valid_parameter name = Inr True"
  shows "\<exists>rest. requests w' = requests w @ rest \<and>
           (rest = [] \<or> hd rest = Geo_GET name (api_key self)) \<and>
           (fresh_by_name (clock e (clock_reads w)) name (cities self) = None \<longrightarrow> rest \<noteq> [])"
proof (cases "fresh_by_name (clock e (clock_reads w)) name (cities self)")
  case (Some d)
  from lookup_or_fetch_hit [OF Some] run Some show ?thesis by auto
next
  case None
  let ?w1 = "w\<lparr>clock_reads := Suc (clock_reads w)\<rparr>"
  obtain g w2 where geo: "get_city_lon_lat e self name ?w1 = (g, w2)"
    by (cases "get_city_lon_lat e self name ?w1") auto
  from get_city_lon_lat_world [OF valid geo]
  have w2: "requests w2 = requests w @ [Geo_GET name (api_key self)]"
    by simp
  have "\<exists>tl. requests w' = requests w2 @ tl"
  proof (cases g)
    case (Inl err)
    with run None geo show ?thesis
      by (simp add: lookup_or_fetch_def datetime_now_def)
  next
    case (Inr found)
    show ?thesis
    proof (cases found)
      case None
      with run \<open>fresh_by_name (clock e (clock_reads w)) name (cities self) = None\<close> geo Inr
      show ?thesis
        by (simp add: lookup_or_fetch_def datetime_now_def)
    next
      case (Some p)
      obtain lo la where p: "p = (lo, la)"
        by (cases p) auto
      obtain s w3 where send: "send_request_to_get_weather_city_json e self name la lo w2 = (s, w3)"
        by (cases "send_request_to_get_weather_city_json e self name la lo w2") auto
      from send_request_world [OF send]
      have w3: "\<exists>tl. requests w3 = requests w2 @ tl"
        by auto
      show ?thesis
      proof (cases s)
        case (Inl err)
        with run \<open>fresh_by_name (clock e (clock_reads w)) name (cities self) = None\<close>
          geo Inr Some p send w3
        show ?thesis
          by (simp add: lookup_or_fetch_def datetime_now_def fresh_by_coordinates_None)
      next
        case (Inr data)
        with run \<open>fresh_by_name (clock e (clock_reads w)) name (cities self) = None\<close>
          geo \<open>g = Inr found\<close> Some p send
        have "insert_city e self name la lo data w3 = (r, self', w')"
          by (simp add: lookup_or_fetch_def datetime_now_def fresh_by_coordinates_None)
        from insert_city_requests [OF this] w3 show ?thesis
          by simp
      qed
    qed
  qed
  then obtain tl where "requests w' = requests w @ (Geo_GET name (api_key self) # tl)"
    using w2 by auto
  then show ?thesis
    by (intro exI [of _ "Geo_GET name (api_key self) # tl"]) simp
qed

lemma update_cities_cache_ok:
  assumes "\<forall>city\<in>set (cities self). is_valid_parameter (city_name city) = Inr True"
    and "\<forall>n la lo k. \<exists>data. weather_endpoint e n la lo k = Some (Response 200 (Some data))"
  shows "\<exists>cs' w'. update_cities_cache e self w = (Inr (), self\<lparr>cities := cs'\<rparr>, w') \<and>
           update_loop e self (clock e (clock_reads w)) (cities self)
             (w\<lparr>clock_reads := Suc (clock_reads w)\<rparr>) = (Inr (), cs', w')"
proof -
  from update_loop_ok [OF assms, of self "clock e (clock_reads w)"
      "w\<lparr>clock_reads := Suc (clock_reads w)\<rparr>"]
  obtain cs' w' where "update_loop e self (clock e (clock_reads w)) (cities self)
             (w\<lparr>clock_reads := Suc (clock_reads w)\<rparr>) = (Inr (), cs', w')"
    by blast
  then show ?thesis
    by (simp add: update_cities_cache_def datetime_now_def)
qed

text \<open>
  C6. In polling mode, with a non-blank requested name, cached names that pass the
  validator (as every name the client itself cached does) and a weather endpoint that
  answers 200: the call first runs the refresh, which issues one weather request per entry
  older than 10 minutes, in cache order and with the entry's stored coordinates, gives
  each such entry the payload answered to its request and the time read by the refresh,
  and leaves every other entry as it was. Only then the lookup and fetch for the requested
  city run, on the refreshed cache: every request they issue comes after the refresh
  requests, the geocode request for the requested name first.
\<close>

theorem polling_refreshes_stale_entries_first:
  assumes "behavior self = POLLING"
    and "is_valid_parameter name = Inr True"
    and "\<forall>city\<in>set (cities self). is_valid_parameter (city_name city) = Inr True"
    and "\<forall>n la lo k. \<exists>data. weather_endpoint e n la lo k = Some (Response 200 (Some data))"
    and "t = clock e (clock_reads w)"
  shows "\<exists>self1 w1 rest.
           update_cities_cache e self w = (Inr (), self1, w1) \<and>
           get_and_cache_weather_city e self name w = lookup_or_fetch e self1 name w1 \<and>
           requests w1 = requests w @
             map (refresh_request self) (filter (\<lambda>city. time_diff t city > 10) (cities self)) \<and>
           length (cities self1) = length (cities self) \<and>
           (\<forall>i<length (cities self).
              if time_diff t (cities self ! i) > 10
              then \<exists>data.
                     cities self1 ! i =
                       (cities self ! i)\<lparr>weather_data := data, created_datetime := t\<rparr> \<and>
                     weather_endpoint e
                       (length (requests w) +
                        length (filter (\<lambda>city. time_diff t city > 10) (take i (cities self))))
                       (lat (cities self ! i)) (lon (cities self ! i)) (api_key self)
                       = Some (Response 200 (Some data))
              else cities self1 ! i = cities self ! i) \<and>
           requests (snd (snd (get_and_cache_weather_city e self name w))) = requests w1 @ rest \<and>
           (rest = [] \<or> hd rest = Geo_GET name (api_key self))"
proof -
  let ?w0 = "w\<lparr>clock_reads := Suc (clock_reads w)\<rparr>"
  from update_cities_cache_ok [OF assms(3,4), of w] obtain cs' w1 where
    upd: "update_cities_cache e self w = (Inr (), self\<lparr>cities := cs'\<rparr>, w1)"
    and loop: "update_loop e self t (cities self) ?w0 = (Inr (), cs', w1)"
    using assms(5) by auto
  let ?self1 = "self\<lparr>cities := cs'\<rparr>"
  have call: "get_and_cache_weather_city e self name w = lookup_or_fetch e ?self1 name w1"
    using assms(1,2) upd by (simp add: get_and_cache_weather_city_def polling_refresh_def)
  from update_loop_world [OF loop]
  have reqs: "requests w1 = requests w @
      map (refresh_request self) (filter (\<lambda>city. time_diff t city > 10) (cities self))"
    by simp
  from update_loop_length [OF loop] have len: "length (cities ?self1) = length (cities self)"
    by simp
  have entries: "\<forall>i<length (cities self).
      if time_diff t (cities self ! i) > 10
      then \<exists>data.
             cities ?self1 ! i = (cities self ! i)\<lparr>weather_data := data, created_datetime := t\<rparr> \<and>
             weather_endpoint e
               (length (requests w) +
                length (filter (\<lambda>city. time_diff t city > 10) (take i (cities self))))
               (lat (cities self ! i)) (lon (cities self ! i)) (api_key self)
               = Some (Response 200 (Some data))
      else cities ?self1 ! i = cities self ! i"
  proof (intro allI impI)
    fix i
    assume i: "i < length (cities self)"
    show "if time_diff t (cities self ! i) > 10
      then \<exists>data.
             cities ?self1 ! i = (cities self ! i)\<lparr>weather_data := data, created_datetime := t\<rparr> \<and>
             weather_endpoint e
               (length (requests w) +
                length (filter (\<lambda>city. time_diff t city > 10) (take i (cities self))))
               (lat (cities self ! i)) (lon (cities self ! i)) (api_key self)
               = Some (Response 200 (Some data))
      else cities ?self1 ! i = cities self ! i"
    proof (cases "time_diff t (cities self ! i) > 10")
      case True
      from update_loop_updated [OF loop i True] True show ?thesis by simp
    next
      case False
      from update_loop_unchanged [OF loop i False] False show ?thesis by simp
    qed
  qed
  obtain r s' w' where run: "lookup_or_fetch e ?self1 name w1 = (r, s', w')"
    by (cases "lookup_or_fetch e ?self1 name w1") auto
  from lookup_or_fetch_requests [OF run assms(2)] obtain rest where
    rest: "requests w' = requests w1 @ rest" "rest = [] \<or> hd rest = Geo_GET name (api_key self)"
    by auto
  from rest call run
  have after: "requests (snd (snd (get_and_cache_weather_city e self name w))) = requests w1 @ rest"
    by simp
  from upd call reqs len entries after rest(2) show ?thesis
    by blast
qed


theorem polling_refreshes_stale_entries_first_witness:
  "behavior (client POLLING [old_paris]) = POLLING \<and>
   is_valid_parameter (str ''Tokyo'') = Inr True \<and>
   is_valid_parameter (city_name old_paris) = Inr True \<and>
   update_cities_cache (mock_env (minutes 11)) (client POLLING [old_paris]) world0
     = (Inr (),
        client POLLING
          [old_paris\<lparr>weather_data := [(''main'', ''Clouds'')], created_datetime := minutes 11\<rparr>],
        \<lparr>clock_reads = 1, requests = [Weather_GET 48 2 (str ''key'')]\<rparr>) \<and>
   get_and_cache_weather_city (mock_env (minutes 11)) (client POLLING [old_paris]) (str ''Tokyo'') world0
     = (Inr [(''main'', ''Rain'')],
        client POLLING
          [old_paris\<lparr>weather_data := [(''main'', ''Clouds'')], created_datetime := minutes 11\<rparr>,
           \<lparr>city_name = str ''Tokyo'', lat = 35, lon = 139, weather_data = [(''main'', ''Rain'')],
            created_datetime = minutes 11 + 2\<rparr>],
        \<lparr>clock_reads = 3,
         requests = [Weather_GET 48 2 (str ''key''), Geo_GET (str ''Tokyo'') (str ''key''),
                     Weather_GET 35 139 (str ''key'')]\<rparr>)"
proof -
  let ?e = "mock_env (minutes 11)" and ?c = "client POLLING [old_paris]"
  let ?paris = "old_paris\<lparr>weather_data := [(''main'', ''Clouds'')], created_datetime := minutes 11\<rparr>"
  let ?w1 = "\<lparr>clock_reads = 1, requests = [Weather_GET 48 2 (str ''key'')]\<rparr>"
  have mode: "behavior ?c = POLLING"
    by (simp add: client_def)
  have names: "\<forall>city\<in>set (cities ?c). is_valid_parameter (city_name city) = Inr True"
    by (simp add: client_def old_paris_def valid_Paris)
  have answers: "\<forall>n la lo k. \<exists>data.
      weather_endpoint ?e n la lo k = Some (Response 200 (Some data))"
    by (simp add: mock_env_def mock_weather_def)
  have send: "send_request_to_get_weather_city_json ?e ?c (str ''Paris'') 48 2
                \<lparr>clock_reads = 1, requests = []\<rparr> = (Inr [(''main'', ''Clouds'')], ?w1)"
    using valid_Paris
    by (simp add: send_request_to_get_weather_city_json_def weather_get_def mock_env_def
        mock_weather_def is_valid_status_code_response_def client_def)
  have stale: "time_diff (minutes 11) old_paris > 10"
    by (simp add: old_paris_def minutes_def time_diff_def)
  have upd: "update_cities_cache ?e ?c world0 = (Inr (), client POLLING [?paris], ?w1)"
    using send stale
    by (simp add: update_cities_cache_def datetime_now_def world0_def mock_env_def client_def
        old_paris_def)
  from polling_refreshes_stale_entries_first [OF mode valid_Tokyo names answers refl, of world0] upd
  have call: "get_and_cache_weather_city ?e ?c (str ''Tokyo'') world0
                = lookup_or_fetch ?e (client POLLING [?paris]) (str ''Tokyo'') ?w1"
    by auto
  have miss: "fresh_by_name (clock ?e (clock_reads ?w1)) (str ''Tokyo'') (cities (client POLLING [?paris])) = None"
    by (simp add: client_def old_paris_def str_def)
  have geo: "geo_endpoint ?e (length (requests ?w1)) (str ''Tokyo'') (api_key (client POLLING [?paris]))
               = Some (Response 200 (Some ((139, 35) # [])))"
    by (simp add: mock_env_def mock_geo_def str_def)
  have weather: "weather_endpoint ?e (Suc (length (requests ?w1))) 35 139 (api_key (client POLLING [?paris]))
               = Some (Response 200 (Some [(''main'', ''Rain'')]))"
    by (simp add: mock_env_def mock_weather_def)
  have room: "length (cities (client POLLING [?paris])) \<le> 9"
    by (simp add: client_def)
  have "get_and_cache_weather_city ?e ?c (str ''Tokyo'') world0
     = (Inr [(''main'', ''Rain'')],
        client POLLING
          [?paris,
           \<lparr>city_name = str ''Tokyo'', lat = 35, lon = 139, weather_data = [(''main'', ''Rain'')],
            created_datetime = minutes 11 + 2\<rparr>],
        \<lparr>clock_reads = 3,
         requests = [Weather_GET 48 2 (str ''key''), Geo_GET (str ''Tokyo'') (str ''key''),
                     Weather_GET 35 139 (str ''key'')]\<rparr>)"
    unfolding call lookup_or_fetch_miss [OF valid_Tokyo miss geo weather]
    using insert_city_room [OF room]
    by (simp add: client_def mock_env_def)
  moreover have "is_valid_parameter (city_name old_paris) = Inr True"
    by (simp add: old_paris_def valid_Paris)
  ultimately show ?thesis
    using mode valid_Tokyo upd by blast
qed

subsection \<open>The boundary of exactly ten minutes\<close>

lemma fresh_by_name_skip:
  "\<not> time_diff t city < 10 \<Longrightarrow>
     fresh_by_name t name (pre @ city # post) = fresh_by_name t name (pre @ post)"
  by (simp add: fresh_by_name_append split: option.splits)

lemma fresh_by_coordinates_skip:
  "\<not> time_diff t city < 10 \<Longrightarrow>
     fresh_by_coordinates t name lo la (pre @ city # post) =
     fresh_by_coordinates t name lo la (pre @ post)"
  by (induction pre) auto

text \<open>
  C10. An entry whose age is exactly 10 minutes at the clock reading \<open>t\<close> passes neither
  test. Both lookup loops of \<open>get_and_cache_weather_city\<close> answer as if the entry were not
  in the cache, so the call does not serve it; when no other entry of the requested name
  is fresh, an on-demand call goes on to the geocode request. The refresh loop leaves the
  entry as it is and issues the requests it would issue without the entry.
\<close>

theorem ten_minutes_old_entry_skipped:
  assumes "time_diff t city = 10"
  shows "fresh_by_name t name (pre @ city # post) = fresh_by_name t name (pre @ post) \<and>
         fresh_by_coordinates t name lo la (pre @ city # post) =
           fresh_by_coordinates t name lo la (pre @ post) \<and>
         (\<forall>r cs' w'. update_loop e self t (pre @ city # post) w = (r, cs', w') \<longrightarrow>
            cs' ! length pre = city \<and>
            (\<exists>k. requests w' = requests w @
               take k (map (refresh_request self)
                         (filter (\<lambda>c. time_diff t c > 10) (pre @ post))))) \<and>
         (behavior self = ON_DEMAND \<and> is_valid_parameter name = Inr True \<and>
          cities self = pre @ city # post \<and> t = clock e (clock_reads w) \<and>
          fresh_by_name t name (pre @ post) = None \<longrightarrow>
            (\<exists>rest. requests (snd (snd (get_and_cache_weather_city e self name w))) =
               requests w @ Geo_GET name (api_key self) # rest))"
proof (intro conjI allI impI)
  from assms show "fresh_by_name t name (pre @ city # post) = fresh_by_name t name (pre @ post)"
    by (simp add: fresh_by_name_skip)
next
  from assms show "fresh_by_coordinates t name lo la (pre @ city # post) =
           fresh_by_coordinates t name lo la (pre @ post)"
    by (simp add: fresh_by_coordinates_skip)
next
  fix r cs' w'
  assume loop: "update_loop e self t (pre @ city # post) w = (r, cs', w')"
  from assms have "\<not> time_diff t ((pre @ city # post) ! length pre) > 10"
    by simp
  from update_loop_unchanged [OF loop _ this] show "cs' ! length pre = city"
    by simp
next
  fix r cs' w'
  assume loop: "update_loop e self t (pre @ city # post) w = (r, cs', w')"
  from assms have "filter (\<lambda>c. time_diff t c > 10) (pre @ city # post)
      = filter (\<lambda>c. time_diff t c > 10) (pre @ post)"
    by simp
  with update_loop_world [OF loop]
  show "\<exists>k. requests w' = requests w @
               take k (map (refresh_request self)
                         (filter (\<lambda>c. time_diff t c > 10) (pre @ post)))"
    by simp
next
  assume a: "behavior self = ON_DEMAND \<and> is_valid_parameter name = Inr True \<and>
          cities self = pre @ city # post \<and> t = clock e (clock_reads w) \<and>
          fresh_by_name t name (pre @ post) = None"
  then have t: "clock e (clock_reads w) = t" and cs: "cities self = pre @ city # post"
    and others: "fresh_by_name t name (pre @ post) = None"
    by blast+
  from assms others have miss: "fresh_by_name (clock e (clock_reads w)) name (cities self) = None"
    unfolding t cs by (simp add: fresh_by_name_skip)
  obtain r s' w' where run: "lookup_or_fetch e self name w = (r, s', w')"
    by (cases "lookup_or_fetch e self name w") auto
  from a have call: "get_and_cache_weather_city e self name w = lookup_or_fetch e self name w"
    by (simp add: get_and_cache_weather_city_def polling_refresh_on_demand)
  from a have valid: "is_valid_parameter name = Inr True"
    by simp
  from lookup_or_fetch_requests [OF run valid] miss obtain rest where
    "requests w' = requests w @ rest" "rest \<noteq> []" "hd rest = Geo_GET name (api_key self)"
    by auto
  then have "requests w' = requests w @ Geo_GET name (api_key self) # tl rest"
    by (cases rest) auto
  with call run show "\<exists>rest. requests (snd (snd (get_and_cache_weather_city e self name w))) =
               requests w @ Geo_GET name (api_key self) # rest"
    by auto
qed


theorem ten_minutes_old_entry_skipped_witness:
  "time_diff (minutes 10) old_paris = 10 \<and>
   fresh_by_name (minutes 10) (str ''Paris'') [old_paris] = None \<and>
   update_loop (mock_env (minutes 10)) (client ON_DEMAND [old_paris]) (minutes 10) [old_paris] world0
     = (Inr (), [old_paris], world0) \<and>
   behavior (client ON_DEMAND [old_paris]) = ON_DEMAND \<and>
   is_valid_parameter (str ''Paris'') = Inr True \<and>
   cities (client ON_DEMAND [old_paris]) = [old_paris] \<and>
   minutes 10 = clock (mock_env (minutes 10)) (clock_reads world0) \<and>
   (\<exists>rest. requests (snd (snd (get_and_cache_weather_city (mock_env (minutes 10))
               (client ON_DEMAND [old_paris]) (str ''Paris'') world0))) =
            Geo_GET (str ''Paris'') (str ''key'') # rest)"
proof -
  let ?e = "mock_env (minutes 10)" and ?c = "client ON_DEMAND [old_paris]"
  have age: "time_diff (minutes 10) old_paris = 10"
    by (simp add: old_paris_def minutes_def time_diff_def)
  note skipped = ten_minutes_old_entry_skipped [OF age, where name = "str ''Paris''"
      and pre = "[]" and post = "[]" and e = ?e and self = ?c and w = world0]
  from skipped have lookup: "fresh_by_name (minutes 10) (str ''Paris'') [old_paris] = None"
    by simp
  have loop: "update_loop ?e ?c (minutes 10) [old_paris] world0 = (Inr (), [old_paris], world0)"
    by (simp add: age)
  have mode: "behavior ?c = ON_DEMAND"
    by (simp add: client_def)
  have cache: "cities ?c = [old_paris]"
    by (simp add: client_def)
  have now: "minutes 10 = clock ?e (clock_reads world0)"
    by (simp add: mock_env_def world0_def)
  from skipped mode valid_Paris cache now
  have "\<exists>rest. requests (snd (snd (get_and_cache_weather_city ?e ?c (str ''Paris'') world0))) =
            requests world0 @ Geo_GET (str ''Paris'') (api_key ?c) # rest"
    by simp
  then have "\<exists>rest. requests (snd (snd (get_and_cache_weather_city ?e ?c (str ''Paris'') world0))) =
            Geo_GET (str ''Paris'') (str ''key'') # rest"
    by (simp add: world0_def client_def)
  with age lookup loop mode valid_Paris cache now show ?thesis
    by blast
qed

end
